theory Spec2Isabelle
  imports Complex_Main "HOL-Library.Char_ord" "HOL-Library.List_Lexorder"
begin

section \<open>gdp\_cal.py: Portugal's GDP per capita against the mean of 16 economies\<close>

text \<open>
  The script is a linear pipeline: download a CSV, detect four columns by keyword,
  filter the rows to a range of years and pivot them to a table indexed by year with one
  column per country code, compute the masked mean of a basket of 16 codes and Portugal's
  percentage of it, write a CSV and a plot.

  Conventions of the model.
  \<^item> A cell of a table is \<open>rat option\<close>: \<open>None\<close> is pandas' missing value (NaN), \<open>Some v\<close> a
    finite number. Floating-point rounding is not modelled: arithmetic is exact.
  \<^item> Column names and country codes are \<open>string\<close>s of ASCII characters.
  \<^item> Every exception the source can raise is a value of \<open>error\<close>, returned as \<open>Inl\<close>.
\<close>

subsection \<open>Constants (lines 24--26)\<close>

definition OWID_URL :: string where
  "OWID_URL = ''https://ourworldindata.org/grapher/gdp-per-capita-maddison-project-database.csv''"

definition DEVELOPED_16 :: "string list" where
  "DEVELOPED_16 = [''GBR'', ''FRA'', ''DEU'', ''DNK'', ''BEL'', ''NLD'', ''ESP'', ''ITA'',
                   ''PRT'', ''SWE'', ''AUT'', ''USA'', ''CAN'', ''AUS'', ''NZL'', ''JPN'']"

definition PORTUGAL :: string where
  "PORTUGAL = ''PRT''"

subsection \<open>Errors\<close>

text \<open>
  \<open>ValueError missing available\<close> is the exception of \<open>detect_columns\<close>; its message
  interpolates the two lists. \<open>KeyError c\<close> is what pandas raises when a column label
  \<open>c\<close> is read from a table that has no such column. \<open>ValueErrorLength\<close> is what the
  \<open>DataFrame\<close> constructor raises when the arrays it is given differ in length.
  \<open>OtherException\<close> stands for the exceptions of the network, the file system and the
  plotting library, which the model takes from its environment.
\<close>

datatype error =
    ValueError "string list" "string list"
  | KeyError string
  | ValueErrorLength
  | OtherException string

subsection \<open>Strings: \<open>str.lower\<close> and the operator \<open>in\<close>\<close>

definition lower_char :: "char \<Rightarrow> char" where
  "lower_char c =
     (let n = (of_char c :: nat) in if 65 \<le> n \<and> n \<le> 90 then char_of (n + 32) else c)"

definition lower :: "string \<Rightarrow> string" where
  "lower s = map lower_char s"

fun startswith :: "string \<Rightarrow> string \<Rightarrow> bool" where
  "startswith s [] = True"
| "startswith [] (k # ks) = False"
| "startswith (x # xs) (k # ks) = (x = k \<and> startswith xs ks)"

text \<open>\<open>contains s k\<close> is Python's \<open>k in s\<close> on strings.\<close>

fun contains :: "string \<Rightarrow> string \<Rightarrow> bool" where
  "contains [] k = (k = [])"
| "contains (x # xs) k = (startswith (x # xs) k \<or> contains xs k)"

subsection \<open>\<open>detect_columns\<close> (lines 34--48)\<close>

text \<open>The four generator conditions of lines 38 to 41.\<close>

definition is_year_col :: "string \<Rightarrow> bool" where
  "is_year_col c = contains (lower c) ''year''"

definition is_country_col :: "string \<Rightarrow> bool" where
  "is_country_col c = (contains (lower c) ''entity'' \<or> contains (lower c) ''country'')"

definition is_code_col :: "string \<Rightarrow> bool" where
  "is_code_col c = contains (lower c) ''code''"

definition is_value_col :: "string \<Rightarrow> bool" where
  "is_value_col c = contains (lower c) ''gdp''"

text \<open>
  Truth value of an \<open>Optional[str]\<close>, as \<open>all([...])\<close> tests it on line 43: \<open>None\<close> and the
  empty string are false.
\<close>

definition truthy :: "string option \<Rightarrow> bool" where
  "truthy v = (case v of None \<Rightarrow> False | Some s \<Rightarrow> s \<noteq> [])"

text \<open>
  \<open>next((c for c in df.columns if P c), None)\<close> is \<open>find P\<close> on the list of column names.
  The function returns the four variables as they are, so the components of the result
  are \<open>string option\<close>s. The list \<open>cols\<close> of line 36 is never read and is left out.
\<close>

definition detect_columns ::
  "string list \<Rightarrow> error + (string option \<times> string option \<times> string option \<times> string option)" where
  "detect_columns df_columns =
     (let year_col = find is_year_col df_columns;
          country_col = find is_country_col df_columns;
          code_col = find is_code_col df_columns;
          value_col = find is_value_col df_columns
      in if \<not> list_all truthy [year_col, country_col, code_col, value_col]
         then (let missing = map fst (filter (\<lambda>(name, val). val = None)
                       [(''year'', year_col), (''country/entity'', country_col),
                        (''code'', code_col), (''gdp'', value_col)])
               in Inl (ValueError missing df_columns))
         else Inr (year_col, country_col, code_col, value_col))"

subsection \<open>Tables\<close>

text \<open>
  The downloaded table after the renaming of line 53: each row is read through the four
  canonical column names. A missing entry of the CSV is \<open>None\<close>; the entity name is
  never used by the computation.
\<close>

record raw_row =
  year :: "int option"
  entity :: string
  code :: "string option"
  gdp_per_capita :: "rat option"

text \<open>
  A \<open>DataFrame\<close> indexed by year: the row labels, the column labels and the cell at a
  row label and a column label. Only the cells at labels of \<open>index\<close> and \<open>columns\<close>
  belong to the table. Labels are taken to be unique, as the pivot produces them.
\<close>

record frame =
  index :: "int list"
  columns :: "string list"
  cell :: "int \<Rightarrow> string \<Rightarrow> rat option"

text \<open>A \<open>Series\<close>: the values with their row labels, in row order.\<close>

type_synonym 'a series = "(int \<times> 'a) list"

subsection \<open>\<open>prepare_wide\<close> (lines 50--56)\<close>

text \<open>
  \<open>prepare_wide\<close> below is lines 54 and 55 on the rows of the renamed table, once the
  labels \<open>year\<close>, \<open>code\<close> and \<open>gdp_per_capita\<close> have been found in it. The renaming of
  line 53 with the four column names, and the errors of looking the labels up, are in
  \<open>prepare_wide_renaming\<close> further down, which is what \<open>main\<close> calls.

  Comparison of a column with a scalar: a missing entry compares false.
\<close>

definition ge_scalar :: "int option \<Rightarrow> int \<Rightarrow> bool" where
  "ge_scalar v k = (case v of None \<Rightarrow> False | Some y \<Rightarrow> y \<ge> k)"

definition le_scalar :: "int option \<Rightarrow> int \<Rightarrow> bool" where
  "le_scalar v k = (case v of None \<Rightarrow> False | Some y \<Rightarrow> y \<le> k)"

text \<open>Line 54: the boolean mask keeps the rows where both comparisons hold.\<close>

definition filter_years :: "raw_row list \<Rightarrow> int \<Rightarrow> int \<Rightarrow> raw_row list" where
  "filter_years df start_year end_year =
     filter (\<lambda>r. ge_scalar (year r) start_year \<and> le_scalar (year r) end_year) df"

text \<open>
  Line 55, \<open>pivot_table(index="year", columns="code", values="gdp_per_capita",
  aggfunc="first")\<close>, with the defaults \<open>dropna=True\<close> and \<open>sort=True\<close>. pandas
  \<^item> groups the rows by (year, code), leaving out the rows whose year or code is missing;
  \<^item> aggregates each group with \<open>GroupBy.first\<close>, which gives the first entry of the group
    that is not missing (and a missing value when there is none);
  \<^item> drops the groups whose aggregate is missing (\<open>dropna(how="all")\<close>);
  \<^item> unstacks the codes into columns, with rows and columns sorted;
  \<^item> drops the columns that have no value left (\<open>dropna(how="all", axis=1)\<close>).
\<close>

definition group_keys :: "raw_row list \<Rightarrow> (int \<times> string) list" where
  "group_keys df =
     remdups (List.map_filter
       (\<lambda>r. case (year r, code r) of (Some y, Some c) \<Rightarrow> Some (y, c) | _ \<Rightarrow> None) df)"

definition group_values :: "raw_row list \<Rightarrow> int \<Rightarrow> string \<Rightarrow> rat option list" where
  "group_values df y c =
     map gdp_per_capita (filter (\<lambda>r. year r = Some y \<and> code r = Some c) df)"

definition first_agg :: "rat option list \<Rightarrow> rat option" where
  "first_agg vs = (case find (\<lambda>v. v \<noteq> None) vs of None \<Rightarrow> None | Some v \<Rightarrow> v)"

definition agged :: "raw_row list \<Rightarrow> ((int \<times> string) \<times> rat option) list" where
  "agged df =
     filter (\<lambda>(k, v). v \<noteq> None)
       (map (\<lambda>(y, c). ((y, c), first_agg (group_values df y c))) (group_keys df))"

definition unstack :: "((int \<times> string) \<times> rat option) list \<Rightarrow> frame" where
  "unstack ag =
     \<lparr>index = sort (remdups (map (fst \<circ> fst) ag)),
      columns = sort (remdups (map (snd \<circ> fst) ag)),
      cell = (\<lambda>y c. case map_of ag (y, c) of None \<Rightarrow> None | Some v \<Rightarrow> v)\<rparr>"

definition dropna_columns :: "frame \<Rightarrow> frame" where
  "dropna_columns f =
     f\<lparr>columns := filter (\<lambda>c. \<exists>y \<in> set (index f). cell f y c \<noteq> None) (columns f)\<rparr>"

definition pivot_table_first :: "raw_row list \<Rightarrow> frame" where
  "pivot_table_first df = dropna_columns (unstack (agged df))"

definition prepare_wide :: "raw_row list \<Rightarrow> int \<Rightarrow> int \<Rightarrow> frame" where
  "prepare_wide df start_year end_year =
     pivot_table_first (filter_years df start_year end_year)"

subsection \<open>The downloaded table and the renaming (line 53)\<close>

text \<open>
  The table that \<open>read_csv\<close> returns: its columns in order, each with its label and its
  entries, which are integers, strings or numbers, with \<open>None\<close> for a missing entry. The
  columns of a table have one length.
\<close>

datatype column =
    IntColumn "int option list"
  | StrColumn "string option list"
  | NumColumn "rat option list"

type_synonym dataframe = "(string \<times> column) list"

definition df_columns :: "dataframe \<Rightarrow> string list" where
  "df_columns df = map fst df"

text \<open>
  The dictionary literal of line 53. Its four keys are written in the order year, country,
  code, value, and a key that is written twice keeps the value written last; a map built by
  four updates in that order does the same.
\<close>

definition rename_dict ::
  "string option \<Rightarrow> string option \<Rightarrow> string option \<Rightarrow> string option
     \<Rightarrow> (string option \<rightharpoonup> string)" where
  "rename_dict year_col country_col code_col value_col =
     Map.empty(year_col \<mapsto> ''year'', country_col \<mapsto> ''entity'', code_col \<mapsto> ''code'',
               value_col \<mapsto> ''gdp_per_capita'')"

text \<open>\<open>df.rename(columns=d)\<close>: a label that is a key of \<open>d\<close> is replaced, the others stay.\<close>

definition rename :: "dataframe \<Rightarrow> (string option \<rightharpoonup> string) \<Rightarrow> dataframe" where
  "rename df d = map (\<lambda>(c, col). (case d (Some c) of None \<Rightarrow> c | Some n \<Rightarrow> n, col)) df"

definition columns_labelled :: "dataframe \<Rightarrow> string \<Rightarrow> column list" where
  "columns_labelled df l = map snd (filter (\<lambda>(c, col). c = l) df)"

text \<open>
  The entity names, which lines 54 and 55 never read: they are taken from the column
  labelled \<open>entity\<close> when there is exactly one, of strings, and are empty otherwise.
\<close>

definition entity_names :: "dataframe \<Rightarrow> nat \<Rightarrow> string list" where
  "entity_names df n =
     (case columns_labelled df ''entity'' of
        [StrColumn es] \<Rightarrow> map (\<lambda>e. case e of None \<Rightarrow> [] | Some s \<Rightarrow> s) es
      | _ \<Rightarrow> replicate n [])"

definition make_rows ::
  "int option list \<Rightarrow> string list \<Rightarrow> string option list \<Rightarrow> rat option list \<Rightarrow> raw_row list" where
  "make_rows ys ns cs vs =
     map (\<lambda>(y, n, c, v). \<lparr>year = y, entity = n, code = c, gdp_per_capita = v\<rparr>)
       (zip ys (zip ns (zip cs vs)))"

text \<open>
  What lines 54 and 55 read from the renamed table, in the order in which they look the
  labels up: \<open>df["year"]\<close> on line 54, then in \<open>pivot_table\<close> the check that the label of the
  values exists, then the grouping by year and code. A label that no column has raises
  \<open>KeyError\<close>. The result is \<open>None\<close> where the model does not follow pandas: when one of the
  three labels is on more than one column, or when the year column does not hold integers,
  the code column strings or the value column numbers. Nothing is said about such a run.
\<close>

definition read_renamed :: "dataframe \<Rightarrow> (error + raw_row list) option" where
  "read_renamed df =
     (case columns_labelled df ''year'' of
        [] \<Rightarrow> Some (Inl (KeyError ''year''))
      | [IntColumn ys] \<Rightarrow>
          (case columns_labelled df ''gdp_per_capita'' of
             [] \<Rightarrow> Some (Inl (KeyError ''gdp_per_capita''))
           | [NumColumn vs] \<Rightarrow>
               (case columns_labelled df ''code'' of
                  [] \<Rightarrow> Some (Inl (KeyError ''code''))
                | [StrColumn cs] \<Rightarrow>
                    Some (Inr (make_rows ys (entity_names df (length ys)) cs vs))
                | _ \<Rightarrow> None)
           | _ \<Rightarrow> None)
      | _ \<Rightarrow> None)"

text \<open>\<open>prepare_wide\<close> with its seven parameters, as \<open>main\<close> calls it (lines 50 to 56).\<close>

definition prepare_wide_renaming ::
  "dataframe \<Rightarrow> string option \<Rightarrow> string option \<Rightarrow> string option \<Rightarrow> string option
     \<Rightarrow> int \<Rightarrow> int \<Rightarrow> (error + frame) option" where
  "prepare_wide_renaming df year_col country_col code_col value_col start_year end_year =
     (case read_renamed (rename df (rename_dict year_col country_col code_col value_col)) of
        None \<Rightarrow> None
      | Some (Inl e) \<Rightarrow> Some (Inl e)
      | Some (Inr renamed) \<Rightarrow> Some (Inr (prepare_wide renamed start_year end_year)))"

subsection \<open>Operations of pandas used by \<open>compute_portugal_vs_mean\<close>\<close>

text \<open>\<open>f[[c1, ..., cn]]\<close>: the table restricted to the listed columns; a label that is not a
  column raises \<open>KeyError\<close>.\<close>

definition getitem_list :: "frame \<Rightarrow> string list \<Rightarrow> error + frame" where
  "getitem_list f cs =
     (case find (\<lambda>c. c \<notin> set (columns f)) cs of
        Some c \<Rightarrow> Inl (KeyError c)
      | None \<Rightarrow> Inr (f\<lparr>columns := cs\<rparr>))"

text \<open>\<open>f[c]\<close>: one column as a series.\<close>

definition getitem :: "frame \<Rightarrow> string \<Rightarrow> error + rat option series" where
  "getitem f c =
     (if c \<in> set (columns f) then Inr (map (\<lambda>y. (y, cell f y c)) (index f))
      else Inl (KeyError c))"

text \<open>\<open>f[name] = s\<close>: replaces the column, or appends it when the table has none of that name.\<close>

definition setitem :: "frame \<Rightarrow> string \<Rightarrow> rat option series \<Rightarrow> frame" where
  "setitem f name s =
     f\<lparr>columns := (if name \<in> set (columns f) then columns f else columns f @ [name]),
       cell := (\<lambda>y c. if c = name then (case map_of s y of None \<Rightarrow> None | Some v \<Rightarrow> v)
                       else cell f y c)\<rparr>"

text \<open>\<open>f.count(axis=1)\<close>: per row, the number of cells that are not missing.\<close>

definition count_axis1 :: "frame \<Rightarrow> rat option series" where
  "count_axis1 f =
     map (\<lambda>y. (y, Some (of_nat (length (filter (\<lambda>c. cell f y c \<noteq> None) (columns f))))))
       (index f)"

text \<open>\<open>f.mean(axis=1)\<close> skips the missing cells; a row with no value has a missing mean.\<close>

definition mean_skipna :: "rat option list \<Rightarrow> rat option" where
  "mean_skipna vs =
     (let xs = List.map_filter id vs
      in if xs = [] then None else Some (sum_list xs / of_nat (length xs)))"

definition mean_axis1 :: "frame \<Rightarrow> rat option series" where
  "mean_axis1 f = map (\<lambda>y. (y, mean_skipna (map (cell f y) (columns f)))) (index f)"

text \<open>\<open>s < k\<close>: a boolean series; a missing entry compares false.\<close>

definition lt_scalar :: "rat option series \<Rightarrow> rat \<Rightarrow> bool series" where
  "lt_scalar s k = map (\<lambda>(y, v). (y, case v of None \<Rightarrow> False | Some x \<Rightarrow> x < k)) s"

text \<open>\<open>s[mask] = pd.NA\<close> on series that share their index.\<close>

definition mask_na :: "rat option series \<Rightarrow> bool series \<Rightarrow> rat option series" where
  "mask_na s m = map (\<lambda>((y, v), (y', b)). (y, if b then None else v)) (zip s m)"

text \<open>\<open>pd.Series(index=idx, dtype=float)\<close>: every entry missing.\<close>

definition empty_series :: "int list \<Rightarrow> rat option series" where
  "empty_series idx = map (\<lambda>y. (y, None)) idx"

text \<open>
  Division of floats as numpy does it, without raising: a missing operand gives a missing
  result, \<open>0 / 0\<close> is NaN, that is missing, and a non-zero number over zero is an
  infinity, whose sign the model does not track.
\<close>

datatype quotient = Finite rat | Infinite

definition div_float :: "rat option \<Rightarrow> rat option \<Rightarrow> quotient option" where
  "div_float a b =
     (case (a, b) of
        (Some p, Some m) \<Rightarrow>
          if m = 0 then (if p = 0 then None else Some Infinite) else Some (Finite (p / m))
      | _ \<Rightarrow> None)"

definition div_series :: "rat option series \<Rightarrow> rat option series \<Rightarrow> quotient option series" where
  "div_series s t = map (\<lambda>((y, a), (y', b)). (y, div_float a b)) (zip s t)"

definition mul_100 :: "quotient option series \<Rightarrow> quotient option series" where
  "mul_100 s =
     map (\<lambda>(y, q). (y, case q of None \<Rightarrow> None
                          | Some (Finite x) \<Rightarrow> Some (Finite (x * 100))
                          | Some Infinite \<Rightarrow> Some Infinite)) s"

subsection \<open>\<open>compute_portugal_vs_mean\<close> (lines 58--80)\<close>

record out_row =
  out_year :: int
  Portugal_gdp_pc :: "rat option"
  Media_16_gdp_pc :: "rat option"
  Portugal_pct_da_media_16 :: "quotient option"

record result_table =
  header :: "string list"
  rows :: "out_row list"

text \<open>Lines 74 to 79: the constructor takes four arrays, which must have one length.\<close>

definition DataFrame ::
  "int list \<Rightarrow> rat option list \<Rightarrow> rat option list \<Rightarrow> quotient option list
     \<Rightarrow> error + result_table" where
  "DataFrame ys ps ms rs =
     (if length ps = length ys \<and> length ms = length ys \<and> length rs = length ys
      then Inr \<lparr>header = [''year'', ''Portugal_gdp_pc'', ''Media_16_gdp_pc'',
                          ''Portugal_pct_da_media_16''],
                rows = map (\<lambda>(y, p, m, r). \<lparr>out_year = y, Portugal_gdp_pc = p,
                                             Media_16_gdp_pc = m,
                                             Portugal_pct_da_media_16 = r\<rparr>)
                         (zip ys (zip ps (zip ms rs)))\<rparr>
      else Inl ValueErrorLength)"

text \<open>Lines 60 to 62: the codes reported as missing on standard error.\<close>

definition missing_codes :: "frame \<Rightarrow> string list \<Rightarrow> string \<Rightarrow> string list" where
  "missing_codes wide developed_16 portugal_code =
     filter (\<lambda>c. c \<notin> set (columns wide)) (developed_16 @ [portugal_code])"

text \<open>Lines 64 to 80.\<close>

definition compute_portugal_vs_mean ::
  "frame \<Rightarrow> string list \<Rightarrow> string \<Rightarrow> error + result_table" where
  "compute_portugal_vs_mean wide developed_16 portugal_code =
     (case getitem_list wide (filter (\<lambda>c. c \<in> set (columns wide)) developed_16) of
        Inl e \<Rightarrow> Inl e
      | Inr avg16_copy \<Rightarrow>
     (let avg16 = setitem avg16_copy ''count_non_na'' (count_axis1 avg16_copy)
      in case getitem_list avg16 (filter (\<lambda>c. c \<in> set (columns avg16)) developed_16) of
        Inl e \<Rightarrow> Inl e
      | Inr basket \<Rightarrow>
     (case getitem avg16 ''count_non_na'' of
        Inl e \<Rightarrow> Inl e
      | Inr count_non_na \<Rightarrow>
     (let avg16_mean = mask_na (mean_axis1 basket) (lt_scalar count_non_na 12)
      in case (if portugal_code \<in> set (columns wide) then getitem wide portugal_code
               else Inr (empty_series (index wide))) of
        Inl e \<Rightarrow> Inl e
      | Inr prt \<Rightarrow>
     (let ratio = mul_100 (div_series prt avg16_mean)
      in DataFrame (map fst ratio) (map snd prt) (map snd avg16_mean) (map snd ratio))))))"

subsection \<open>The result of \<open>compute_portugal_vs_mean\<close>, row by row\<close>

text \<open>
  What lines 64 to 80 compute for one year of the index, written without the intermediate
  tables; \<open>compute_closed\<close> below proves that the function returns these rows.
\<close>

definition present_columns :: "frame \<Rightarrow> string list \<Rightarrow> string list" where
  "present_columns wide developed_16 = filter (\<lambda>c. c \<in> set (columns wide)) developed_16"

definition masked_mean :: "frame \<Rightarrow> string list \<Rightarrow> int \<Rightarrow> rat option" where
  "masked_mean wide developed_16 y =
     (let cs = present_columns wide developed_16
      in if length (filter (\<lambda>c. cell wide y c \<noteq> None) cs) < 12 then None
         else mean_skipna (map (cell wide y) cs))"

definition portugal_value :: "frame \<Rightarrow> string \<Rightarrow> int \<Rightarrow> rat option" where
  "portugal_value wide portugal_code y =
     (if portugal_code \<in> set (columns wide) then cell wide y portugal_code else None)"

definition pct :: "quotient option \<Rightarrow> quotient option" where
  "pct q = (case q of None \<Rightarrow> None | Some (Finite x) \<Rightarrow> Some (Finite (x * 100))
                   | Some Infinite \<Rightarrow> Some Infinite)"

definition result_row :: "frame \<Rightarrow> string list \<Rightarrow> string \<Rightarrow> int \<Rightarrow> out_row" where
  "result_row wide developed_16 portugal_code y =
     \<lparr>out_year = y,
      Portugal_gdp_pc = portugal_value wide portugal_code y,
      Media_16_gdp_pc = masked_mean wide developed_16 y,
      Portugal_pct_da_media_16 =
        pct (div_float (portugal_value wide portugal_code y) (masked_mean wide developed_16 y))\<rparr>"

subsection \<open>\<open>main\<close> (lines 98--128)\<close>

text \<open>
  The command line after \<open>argparse\<close>, and the environment of a run: what the download
  returns, and whether writing the CSV and drawing the plot raise.
\<close>

record args =
  source_url :: string
  start_year :: int
  end_year :: int
  out_csv :: string
  out_png :: string

record world =
  download_csv :: "string \<Rightarrow> error + dataframe"
  to_csv :: "result_table \<Rightarrow> string \<Rightarrow> error option"
  plot_ratio :: "result_table \<Rightarrow> string \<Rightarrow> error option"

datatype message =
    A_descarregar_dados
  | Colunas_disponiveis "string list"
  | Erro_a_detetar_colunas error
  | Usando_colunas "string option" "string option" "string option" "string option"
  | Aviso_faltam_dados "string list"
  | CSV_guardado_em string
  | PNG_guardado_em string
  | Erro_ao_gerar_grafico error

datatype event =
    Stdout message
  | Stderr message
  | CsvWritten string result_table

text \<open>
  How the process ends: \<open>Exit n\<close> is the exit status \<open>n\<close> (\<open>sys.exit(1)\<close>, or \<open>0\<close> when
  \<open>main\<close> returns); \<open>Uncaught e\<close> is an exception that no handler catches, on which the
  interpreter prints a traceback and exits with status 1; \<open>Unmodelled\<close> marks a run that
  leaves the model in \<open>read_renamed\<close>, about whose end nothing is said.
\<close>

datatype exit = Exit nat | Uncaught error | Unmodelled

text \<open>The handler of line 113 catches \<open>ValueError\<close> only.\<close>

fun is_ValueError :: "error \<Rightarrow> bool" where
  "is_ValueError (ValueError missing available) = True"
| "is_ValueError ValueErrorLength = True"
| "is_ValueError (KeyError c) = False"
| "is_ValueError (OtherException s) = False"

definition warning :: "frame \<Rightarrow> string list \<Rightarrow> string \<Rightarrow> event list" where
  "warning wide developed_16 portugal_code =
     (let missing = missing_codes wide developed_16 portugal_code
      in if missing \<noteq> [] then [Stderr (Aviso_faltam_dados missing)] else [])"

definition main :: "world \<Rightarrow> args \<Rightarrow> event list \<times> exit" where
  "main w a =
     (let ev0 = [Stdout A_descarregar_dados]
      in case download_csv w (source_url a) of
        Inl e \<Rightarrow> (ev0, Uncaught e)
      | Inr df \<Rightarrow>
     (let ev1 = ev0 @ [Stdout (Colunas_disponiveis (df_columns df))]
      in case detect_columns (df_columns df) of
        Inl exc \<Rightarrow>
          if is_ValueError exc then (ev1 @ [Stderr (Erro_a_detetar_colunas exc)], Exit 1)
          else (ev1, Uncaught exc)
      | Inr (year_col, country_col, code_col, value_col) \<Rightarrow>
     (let ev2 = ev1 @ [Stdout (Usando_colunas year_col country_col code_col value_col)]
      in case prepare_wide_renaming df year_col country_col code_col value_col
                (start_year a) (end_year a) of
        None \<Rightarrow> (ev2, Unmodelled)
      | Some (Inl e) \<Rightarrow> (ev2, Uncaught e)
      | Some (Inr wide) \<Rightarrow>
     (let ev3 = ev2 @ warning wide DEVELOPED_16 PORTUGAL
      in case compute_portugal_vs_mean wide DEVELOPED_16 PORTUGAL of
        Inl e \<Rightarrow> (ev3, Uncaught e)
      | Inr out \<Rightarrow>
     (case to_csv w out (out_csv a) of
        Some e \<Rightarrow> (ev3, Uncaught e)
      | None \<Rightarrow>
     (let ev4 = ev3 @ [CsvWritten (out_csv a) out, Stdout (CSV_guardado_em (out_csv a))]
      in case plot_ratio w out (out_png a) of
        Some e \<Rightarrow> (ev4 @ [Stderr (Erro_ao_gerar_grafico e)], Exit 0)
      | None \<Rightarrow> (ev4 @ [Stdout (PNG_guardado_em (out_png a))], Exit 0)))))))"


subsection \<open>The specification's words\<close>

text \<open>
  The words of the specification, for comparison: a name matches a keyword when its
  lowercased form has the keyword as a contiguous substring, and the selected column is
  the first one in column order that matches.
\<close>

definition has_substring :: "string \<Rightarrow> string \<Rightarrow> bool" where
  "has_substring s k = (\<exists>ps ss. s = ps @ k @ ss)"

definition field_matches :: "string \<Rightarrow> string \<Rightarrow> bool" where
  "field_matches field c =
     (if field = ''year'' then has_substring (lower c) ''year''
      else if field = ''country/entity''
           then has_substring (lower c) ''entity'' \<or> has_substring (lower c) ''country''
      else if field = ''code'' then has_substring (lower c) ''code''
      else has_substring (lower c) ''gdp'')"

definition first_matching :: "string \<Rightarrow> string list \<Rightarrow> string \<Rightarrow> bool" where
  "first_matching field cols c =
     (\<exists>i < length cols. cols ! i = c \<and> field_matches field c
                        \<and> (\<forall>j < i. \<not> field_matches field (cols ! j)))"

definition unresolved :: "string list \<Rightarrow> string list" where
  "unresolved cols =
     filter (\<lambda>field. \<not> (\<exists>c \<in> set cols. field_matches field c))
       [''year'', ''country/entity'', ''code'', ''gdp'']"

definition all_resolved :: "string list \<Rightarrow> bool" where
  "all_resolved cols =
     (\<forall>field \<in> set [''year'', ''country/entity'', ''code'', ''gdp''].
        \<exists>c \<in> set cols. field_matches field c)"

text \<open>
  The non-missing values among the 16 basket-code columns for a year (a basket code that
  is not a column of the table has no value), their arithmetic mean, the same values
  without Portugal's, and the percentage ratio of two operands.
\<close>

definition basket_values :: "frame \<Rightarrow> int \<Rightarrow> rat list" where
  "basket_values wide y =
     List.map_filter (\<lambda>c. if c \<in> set (columns wide) then cell wide y c else None) DEVELOPED_16"

definition arithmetic_mean :: "rat list \<Rightarrow> rat" where
  "arithmetic_mean xs = sum_list xs / of_nat (length xs)"

definition other_values :: "frame \<Rightarrow> int \<Rightarrow> rat list" where
  "other_values wide y =
     List.map_filter (\<lambda>c. if c \<in> set (columns wide) then cell wide y c else None)
       (remove1 PORTUGAL DEVELOPED_16)"

definition ratio_of :: "rat option \<Rightarrow> rat option \<Rightarrow> quotient option" where
  "ratio_of prt mean =
     (case (prt, mean) of
        (Some p, Some m) \<Rightarrow>
          if m \<noteq> 0 then Some (Finite (p / m * 100))
          else if p = 0 then None else Some Infinite
      | _ \<Rightarrow> None)"

text \<open>The year of a row lies between the two bounds, both included.\<close>

definition year_in_range :: "int \<Rightarrow> int \<Rightarrow> raw_row \<Rightarrow> bool" where
  "year_in_range lo hi r = (\<exists>y. year r = Some y \<and> lo \<le> y \<and> y \<le> hi)"

subsection \<open>Example tables\<close>

text \<open>\<open>table_of rs cs\<close> is the table with columns \<open>cs\<close> whose rows are given as association
  lists from column label to value; a label without an entry is a missing cell.\<close>

definition table_of :: "(int \<times> (string \<times> rat) list) list \<Rightarrow> string list \<Rightarrow> frame" where
  "table_of rs cs =
     \<lparr>index = map fst rs, columns = cs,
      cell = (\<lambda>y c. case map_of rs y of None \<Rightarrow> None | Some r \<Rightarrow> map_of r c)\<rparr>"

definition coverage_table :: frame where
  "coverage_table = table_of
     [(1900, zip (take 11 DEVELOPED_16) (replicate 11 100)),
      (1901, zip (take 12 DEVELOPED_16) ([120, 80] @ replicate 10 100)),
      (1902, zip DEVELOPED_16 ([100, 100, 100, 100, 100, 100, 100, 100, 80] @ replicate 7 100))]
     DEVELOPED_16"


definition zero_table :: frame where
  "zero_table = table_of [(2000, zip DEVELOPED_16 (replicate 16 0))] DEVELOPED_16"

definition fifty_table :: frame where
  "fifty_table = table_of
     [(2000, zip DEVELOPED_16 ([150, 100, 100, 100, 100, 100, 100, 100, 50] @ replicate 7 100)),
      (2001, zip (take 8 DEVELOPED_16) (replicate 8 100))]
     DEVELOPED_16"

definition no_portugal_table :: frame where
  "no_portugal_table = table_of
     [(2000, zip (remove1 PORTUGAL DEVELOPED_16) (replicate 15 100)),
      (2001, zip (remove1 PORTUGAL DEVELOPED_16) (replicate 15 200))]
     (remove1 PORTUGAL DEVELOPED_16)"

text \<open>
  A raw table with duplicate (year, code) pairs, years on both sides of 1950--1951, a row
  without code and a row without year.
\<close>

definition duplicate_rows :: "raw_row list" where
  "duplicate_rows =
     [\<lparr>year = Some 1950, entity = ''Portugal'', code = Some ''PRT'', gdp_per_capita = Some 80\<rparr>,
      \<lparr>year = Some 1950, entity = ''UK'', code = Some ''GBR'', gdp_per_capita = None\<rparr>,
      \<lparr>year = Some 1950, entity = ''Portugal'', code = Some ''PRT'', gdp_per_capita = Some 90\<rparr>,
      \<lparr>year = Some 1951, entity = ''Portugal'', code = Some ''PRT'', gdp_per_capita = Some 85\<rparr>,
      \<lparr>year = Some 1950, entity = ''UK'', code = Some ''GBR'', gdp_per_capita = Some 100\<rparr>,
      \<lparr>year = Some 1950, entity = ''UK'', code = Some ''GBR'', gdp_per_capita = Some 110\<rparr>,
      \<lparr>year = Some 1949, entity = ''UK'', code = Some ''GBR'', gdp_per_capita = Some 95\<rparr>,
      \<lparr>year = Some 1952, entity = ''UK'', code = Some ''GBR'', gdp_per_capita = Some 120\<rparr>,
      \<lparr>year = Some 1951, entity = ''Western Europe'', code = None, gdp_per_capita = Some 300\<rparr>,
      \<lparr>year = None, entity = ''UK'', code = Some ''GBR'', gdp_per_capita = Some 130\<rparr>]"

text \<open>
  The rows of the end-to-end scenario: Portugal at 80 and the 15 other basket codes at 100,
  all in 1950. The entity names that the scenario leaves open are set to the codes.
\<close>

definition scenario_rows :: "raw_row list" where
  "scenario_rows =
     \<lparr>year = Some 1950, entity = ''Portugal'', code = Some ''PRT'', gdp_per_capita = Some 80\<rparr>
   # \<lparr>year = Some 1950, entity = ''UK'', code = Some ''GBR'', gdp_per_capita = Some 100\<rparr>
   # map (\<lambda>c. \<lparr>year = Some 1950, entity = c, code = Some c, gdp_per_capita = Some 100\<rparr>)
       [''FRA'', ''DEU'', ''DNK'', ''BEL'', ''NLD'', ''ESP'', ''ITA'', ''SWE'', ''AUT'', ''USA'',
        ''CAN'', ''AUS'', ''NZL'', ''JPN'']"

subsection \<open>Example runs\<close>

text \<open>
  The default command line; three downloads: the rows of the scenario under the header of
  the dataset, a header that lacks code and value, and a header whose value column also
  has \<open>year\<close> in its name and comes before the year column; an environment where saving
  the plot raises, and two where nothing of the environment does.
\<close>

definition default_args :: args where
  "default_args =
     \<lparr>source_url = OWID_URL, start_year = 1870, end_year = 2022,
      out_csv = ''portugal_vs_16_developed.csv'',
      out_png = ''grafico_portugal_pct_media16.png''\<rparr>"

definition scenario_frame :: dataframe where
  "scenario_frame =
     [(''Entity'', StrColumn (map (\<lambda>r. Some (entity r)) scenario_rows)),
      (''Code'', StrColumn (map code scenario_rows)),
      (''Year'', IntColumn (map year scenario_rows)),
      (''GDP per capita'', NumColumn (map gdp_per_capita scenario_rows))]"

definition headless_frame :: dataframe where
  "headless_frame =
     [(''Entity'', StrColumn [Some ''Portugal'']),
      (''Year'', IntColumn [Some 1950]),
      (''Population'', IntColumn [Some 8400000])]"

definition colliding_frame :: dataframe where
  "colliding_frame =
     [(''Code'', StrColumn [Some ''PRT'']),
      (''Entity'', StrColumn [Some ''Portugal'']),
      (''GDP per capita in year 2011 prices'', NumColumn [Some 80]),
      (''Year'', IntColumn [Some 1950])]"

definition world_plot_fails :: world where
  "world_plot_fails =
     \<lparr>download_csv = (\<lambda>url. Inr scenario_frame),
      to_csv = (\<lambda>out path. None),
      plot_ratio = (\<lambda>out path. Some (OtherException ''cannot save figure''))\<rparr>"

definition world_headless :: world where
  "world_headless =
     \<lparr>download_csv = (\<lambda>url. Inr headless_frame),
      to_csv = (\<lambda>out path. None),
      plot_ratio = (\<lambda>out path. None)\<rparr>"

definition world_colliding :: world where
  "world_colliding =
     \<lparr>download_csv = (\<lambda>url. Inr colliding_frame),
      to_csv = (\<lambda>out path. None),
      plot_ratio = (\<lambda>out path. None)\<rparr>"

section \<open>Properties\<close>

subsection \<open>Substring test\<close>

lemma startswith_iff: "startswith s k \<longleftrightarrow> (\<exists>ss. s = k @ ss)"
  by (induction s k rule: startswith.induct) auto

lemma contains_iff: "contains s k \<longleftrightarrow> has_substring s k"
proof (induction s)
  case Nil
  show ?case by (auto simp: has_substring_def)
next
  case (Cons x xs)
  have "has_substring (x # xs) k \<longleftrightarrow> (\<exists>ss. x # xs = k @ ss) \<or> has_substring xs k"
  proof
    assume "has_substring (x # xs) k"
    then obtain ps ss where eq: "x # xs = ps @ k @ ss"
      by (auto simp: has_substring_def)
    show "(\<exists>ss. x # xs = k @ ss) \<or> has_substring xs k"
    proof (cases ps)
      case Nil
      with eq show ?thesis by auto
    next
      case (Cons p ps')
      with eq have "xs = ps' @ k @ ss" by simp
      then show ?thesis by (auto simp: has_substring_def)
    qed
  next
    assume "(\<exists>ss. x # xs = k @ ss) \<or> has_substring xs k"
    then show "has_substring (x # xs) k"
    proof
      assume "\<exists>ss. x # xs = k @ ss"
      then obtain ss where "x # xs = [] @ k @ ss" by auto
      then show ?thesis unfolding has_substring_def by blast
    next
      assume "has_substring xs k"
      then obtain ps ss where "xs = ps @ k @ ss" by (auto simp: has_substring_def)
      then have "x # xs = (x # ps) @ k @ ss" by simp
      then show ?thesis unfolding has_substring_def by blast
    qed
  qed
  with Cons show ?case by (simp add: startswith_iff)
qed

subsection \<open>Column detection\<close>

lemma has_substring_code [code]: "has_substring s k = contains s k"
  by (simp add: contains_iff)

lemma field_matches_simps:
  "field_matches ''year'' c = is_year_col c"
  "field_matches ''country/entity'' c = is_country_col c"
  "field_matches ''code'' c = is_code_col c"
  "field_matches ''gdp'' c = is_value_col c"
  by (simp_all add: field_matches_def is_year_col_def is_country_col_def is_code_col_def
      is_value_col_def contains_iff)

lemma find_truthy:
  assumes "find P cols = Some s" and "\<not> P []"
  shows "truthy (Some s)"
proof -
  from assms(1) have "P s" by (auto simp: find_Some_iff)
  with assms(2) have "s \<noteq> []" by auto
  then show ?thesis by (simp add: truthy_def)
qed

lemma not_col_Nil:
  "\<not> is_year_col []" "\<not> is_country_col []" "\<not> is_code_col []" "\<not> is_value_col []"
  by (simp_all add: is_year_col_def is_country_col_def is_code_col_def is_value_col_def lower_def)

lemma truthy_find:
  assumes "\<not> P []"
  shows "truthy (find P cols) \<longleftrightarrow> (\<exists>c \<in> set cols. P c)"
proof (cases "find P cols")
  case None
  then have "\<not> (\<exists>c \<in> set cols. P c)" by (simp add: find_None_iff)
  with None show ?thesis by (simp add: truthy_def)
next
  case (Some s)
  then have "P s" and "s \<in> set cols"
    by (auto simp: find_Some_iff)
  moreover from Some assms have "truthy (Some s)" by (rule find_truthy)
  ultimately show ?thesis using Some by auto
qed

lemma find_first_matching:
  assumes "find P cols = Some c" and "\<And>x. field_matches field x = P x"
  shows "first_matching field cols c"
  using assms unfolding first_matching_def find_Some_iff by auto


lemma unresolved_eq:
  "unresolved cols = map fst (filter (\<lambda>(name, val). val = None)
       [(''year'', find is_year_col cols), (''country/entity'', find is_country_col cols),
        (''code'', find is_code_col cols), (''gdp'', find is_value_col cols)])"
  by (simp add: unresolved_def field_matches_simps find_None_iff)

lemma detect_columns_closed:
  "detect_columns cols =
     (if all_resolved cols
      then Inr (find is_year_col cols, find is_country_col cols, find is_code_col cols, find is_value_col cols)
      else Inl (ValueError (unresolved cols) cols))"
  unfolding detect_columns_def Let_def unresolved_eq [symmetric]
  by (simp add: all_resolved_def field_matches_simps truthy_find not_col_Nil)

text \<open>
  Claim C4. For every list of column names, \<open>detect_columns\<close> succeeds exactly when each of
  the four logical fields has a column whose lowercased name contains the field's keyword,
  and then returns, for each field, the first such column in column order. Otherwise it
  raises the error that lists exactly the fields without a matching column, together with
  the full list of column names.
\<close>

theorem detect_columns_first_match_or_error:
  "(all_resolved cols \<longrightarrow>
      (\<exists>y n c v. detect_columns cols = Inr (Some y, Some n, Some c, Some v)
         \<and> first_matching ''year'' cols y \<and> first_matching ''country/entity'' cols n
         \<and> first_matching ''code'' cols c \<and> first_matching ''gdp'' cols v))
   \<and> (\<not> all_resolved cols \<longrightarrow>
      detect_columns cols = Inl (ValueError (unresolved cols) cols) \<and> unresolved cols \<noteq> [])
   \<and> ((\<exists>e. detect_columns cols = Inl e) \<longleftrightarrow> \<not> all_resolved cols)"
proof (cases "all_resolved cols")
  case True
  then have ex: "\<exists>c \<in> set cols. is_year_col c" "\<exists>c \<in> set cols. is_country_col c"
    "\<exists>c \<in> set cols. is_code_col c" "\<exists>c \<in> set cols. is_value_col c"
    by (simp_all add: all_resolved_def field_matches_simps)
  from ex(1) obtain y where y: "find is_year_col cols = Some y"
    by (cases "find is_year_col cols") (auto simp: find_None_iff)
  from ex(2) obtain n where n: "find is_country_col cols = Some n"
    by (cases "find is_country_col cols") (auto simp: find_None_iff)
  from ex(3) obtain c where c: "find is_code_col cols = Some c"
    by (cases "find is_code_col cols") (auto simp: find_None_iff)
  from ex(4) obtain v where v: "find is_value_col cols = Some v"
    by (cases "find is_value_col cols") (auto simp: find_None_iff)
  have "first_matching ''year'' cols y" "first_matching ''country/entity'' cols n"
    "first_matching ''code'' cols c" "first_matching ''gdp'' cols v"
    using y n c v by (auto intro: find_first_matching simp: field_matches_simps)
  with True y n c v show ?thesis
    by (simp add: detect_columns_closed)
next
  case False
  then have "unresolved cols \<noteq> []"
    by (auto simp: all_resolved_def unresolved_def filter_empty_conv)
  with False show ?thesis
    by (simp add: detect_columns_closed)
qed

text \<open>The theorem at the header of the dataset, and at a header without code and value.\<close>

theorem detect_columns_first_match_or_error_witness:
  "all_resolved [''Entity'', ''Code'', ''Year'', ''GDP per capita'', ''Country code'']
   \<and> (\<exists>y n c v. detect_columns [''Entity'', ''Code'', ''Year'', ''GDP per capita'', ''Country code'']
                   = Inr (Some y, Some n, Some c, Some v)
         \<and> first_matching ''year'' [''Entity'', ''Code'', ''Year'', ''GDP per capita'', ''Country code''] y 
         \<and> first_matching ''country/entity'' [''Entity'', ''Code'', ''Year'', ''GDP per capita'', ''Country code''] n
         \<and> first_matching ''code'' [''Entity'', ''Code'', ''Year'', ''GDP per capita'', ''Country code''] c
         \<and> first_matching ''gdp'' [''Entity'', ''Code'', ''Year'', ''GDP per capita'', ''Country code''] v)
   \<and> \<not> all_resolved [''Entity'', ''Year'', ''Population'']
   \<and> detect_columns [''Entity'', ''Year'', ''Population'']
       = Inl (ValueError [''code'', ''gdp''] [''Entity'', ''Year'', ''Population''])"
proof -
  have a: "all_resolved [''Entity'', ''Code'', ''Year'', ''GDP per capita'', ''Country code'']"
    by code_simp
  have b: "\<not> all_resolved [''Entity'', ''Year'', ''Population'']"
    by code_simp
  have c: "unresolved [''Entity'', ''Year'', ''Population''] = [''code'', ''gdp'']"
    by code_simp
  show ?thesis
    using a b c
      detect_columns_first_match_or_error [of "[''Entity'', ''Code'', ''Year'', ''GDP per capita'', ''Country code'']"]
      detect_columns_first_match_or_error [of "[''Entity'', ''Year'', ''Population'']"]
    by simp
qed

subsection \<open>The aggregator in closed form\<close>

lemma find_notin_filter: "find (\<lambda>c. c \<notin> A) (filter (\<lambda>c. c \<in> A) xs) = None"
  by (simp add: find_None_iff)

lemma getitem_list_present:
  "getitem_list f (filter (\<lambda>c. c \<in> set (columns f)) cs)
     = Inr (f\<lparr>columns := filter (\<lambda>c. c \<in> set (columns f)) cs\<rparr>)"
  by (simp add: getitem_list_def find_notin_filter)

lemma map_of_graph: "y \<in> set ys \<Longrightarrow> map_of (map (\<lambda>k. (k, g k)) ys) y = Some (g y)"
  by (induction ys) auto

lemma zip_graph:
  "zip (map (\<lambda>y. (y, g y)) ys) (map (\<lambda>y. (y, h y)) ys) = map (\<lambda>y. ((y, g y), (y, h y))) ys"
  by (induction ys) auto

lemma zip_same4:
  "zip ys (zip (map b ys) (zip (map c ys) (map d ys))) = map (\<lambda>y. (y, b y, c y, d y)) ys"
  by (induction ys) auto

lemma compute_closed:
  assumes D: "''count_non_na'' \<notin> set developed_16"
  shows "compute_portugal_vs_mean wide developed_16 portugal_code =
     Inr \<lparr>header = [''year'', ''Portugal_gdp_pc'', ''Media_16_gdp_pc'', ''Portugal_pct_da_media_16''],
          rows = map (result_row wide developed_16 portugal_code) (index wide)\<rparr>"
proof -
  define cs where "cs = filter (\<lambda>c. c \<in> set (columns wide)) developed_16"
  define avg16_copy where "avg16_copy = wide\<lparr>columns := cs\<rparr>"
  define avg16 where "avg16 = setitem avg16_copy ''count_non_na'' (count_axis1 avg16_copy)"
  have cs_D: "set cs \<subseteq> set developed_16" by (auto simp: cs_def)
  then have notin: "''count_non_na'' \<notin> set cs" using D by auto
  have step1: "getitem_list wide (filter (\<lambda>c. c \<in> set (columns wide)) developed_16) = Inr avg16_copy"
    by (simp add: getitem_list_present avg16_copy_def cs_def)
  have cols16: "columns avg16 = cs @ [''count_non_na'']"
    using notin by (simp add: avg16_def setitem_def avg16_copy_def)
  have idx16: "index avg16 = index wide"
    by (simp add: avg16_def setitem_def avg16_copy_def)
  have sel: "filter (\<lambda>c. c \<in> set (columns avg16)) developed_16 = cs"
  proof -
    have "filter (\<lambda>c. c \<in> set (cs @ [''count_non_na''])) developed_16
        = filter (\<lambda>c. c \<in> set (columns wide)) developed_16"
      by (rule filter_cong [OF refl]) (use D in \<open>auto simp: cs_def\<close>)
    then show ?thesis by (simp add: cols16 cs_def)
  qed
  have step2: "getitem_list avg16 (filter (\<lambda>c. c \<in> set (columns avg16)) developed_16)
      = Inr (avg16\<lparr>columns := cs\<rparr>)"
    using getitem_list_present [of avg16 developed_16] by (simp add: sel)
  have cell16: "cell avg16 y c = cell wide y c" if "c \<in> set cs" for y c
    using that notin by (auto simp: avg16_def setitem_def avg16_copy_def)
  have cnt16: "cell avg16 y ''count_non_na''
      = Some (of_nat (length (filter (\<lambda>c. cell wide y c \<noteq> None) cs)))"
    if "y \<in> set (index wide)" for y
    using that
    by (simp add: avg16_def setitem_def count_axis1_def avg16_copy_def map_of_graph)
  have step3: "getitem avg16 ''count_non_na''
      = Inr (map (\<lambda>y. (y, Some (of_nat (length (filter (\<lambda>c. cell wide y c \<noteq> None) cs)))))
               (index wide))"
    using cnt16 by (simp add: getitem_def cols16 idx16)
  have mean16: "mean_axis1 (avg16\<lparr>columns := cs\<rparr>)
      = map (\<lambda>y. (y, mean_skipna (map (cell wide y) cs))) (index wide)"
    using cell16 by (simp add: mean_axis1_def idx16 cong: map_cong)
  have masked: "mask_na (mean_axis1 (avg16\<lparr>columns := cs\<rparr>))
        (lt_scalar (map (\<lambda>y. (y, Some (of_nat (length (filter (\<lambda>c. cell wide y c \<noteq> None) cs)))))
               (index wide)) 12)
      = map (\<lambda>y. (y, masked_mean wide developed_16 y)) (index wide)"
    unfolding mean16
    by (simp add: mask_na_def lt_scalar_def zip_graph masked_mean_def present_columns_def
        cs_def [symmetric] Let_def o_def)
  have prt: "(if portugal_code \<in> set (columns wide) then getitem wide portugal_code
              else Inr (empty_series (index wide)))
      = Inr (map (\<lambda>y. (y, portugal_value wide portugal_code y)) (index wide))"
    by (simp add: getitem_def empty_series_def portugal_value_def)
  have ratio: "mul_100 (div_series (map (\<lambda>y. (y, portugal_value wide portugal_code y)) (index wide))
        (map (\<lambda>y. (y, masked_mean wide developed_16 y)) (index wide)))
      = map (\<lambda>y. (y, pct (div_float (portugal_value wide portugal_code y)
                                       (masked_mean wide developed_16 y)))) (index wide)"
    by (simp add: mul_100_def div_series_def zip_graph pct_def o_def)
  show ?thesis
    unfolding compute_portugal_vs_mean_def step1 sum.case Let_def
      avg16_def [symmetric] step2 step3 masked prt ratio
    by (simp add: DataFrame_def o_def zip_same4 result_row_def)
qed

lemma count_non_na_notin: "''count_non_na'' \<notin> set DEVELOPED_16"
  by (simp add: DEVELOPED_16_def)

lemmas compute_16 = compute_closed [OF count_non_na_notin]

lemma map_filter_present:
  "List.map_filter id (map g (filter P xs)) = List.map_filter (\<lambda>c. if P c then g c else None) xs"
  by (induction xs) (auto simp: List.map_filter_simps split: option.splits)

lemma length_present:
  "length (filter (\<lambda>c. g c \<noteq> None) (filter P xs))
     = length (List.map_filter (\<lambda>c. if P c then g c else None) xs)"
  by (induction xs) (auto simp: List.map_filter_simps split: option.splits)

lemma masked_mean_16:
  "masked_mean wide DEVELOPED_16 y =
     (if length (basket_values wide y) < 12 then None
      else Some (arithmetic_mean (basket_values wide y)))"
proof -
  have cnt: "length (filter (\<lambda>c. cell wide y c \<noteq> None) (present_columns wide DEVELOPED_16))
      = length (basket_values wide y)"
    unfolding present_columns_def basket_values_def by (rule length_present)
  have vals: "List.map_filter id (map (cell wide y) (present_columns wide DEVELOPED_16))
      = basket_values wide y"
    unfolding present_columns_def basket_values_def by (rule map_filter_present)
  have ne: "basket_values wide y \<noteq> []" if "\<not> length (basket_values wide y) < 12"
    using that by auto
  show ?thesis
    unfolding masked_mean_def Let_def cnt mean_skipna_def vals
    using ne by (simp add: arithmetic_mean_def)
qed

lemma pct_div_float: "pct (div_float p m) = ratio_of p m"
  by (auto simp: pct_def div_float_def ratio_of_def split: option.splits)

lemma map_filter_split:
  fixes v :: rat
  assumes "g p = Some v"
  shows "sum_list (List.map_filter g (pre @ p # post)) = v + sum_list (List.map_filter g (pre @ post))"
    and "length (List.map_filter g (pre @ p # post)) = 1 + length (List.map_filter g (pre @ post))"
  using assms by (induction pre) (auto simp: List.map_filter_simps algebra_simps split: option.splits)

lemma DEVELOPED_16_split:
  "DEVELOPED_16 = [''GBR'', ''FRA'', ''DEU'', ''DNK'', ''BEL'', ''NLD'', ''ESP'', ''ITA'']
      @ PORTUGAL # [''SWE'', ''AUT'', ''USA'', ''CAN'', ''AUS'', ''NZL'', ''JPN'']"
  "remove1 PORTUGAL DEVELOPED_16 = [''GBR'', ''FRA'', ''DEU'', ''DNK'', ''BEL'', ''NLD'', ''ESP'', ''ITA'']
      @ [''SWE'', ''AUT'', ''USA'', ''CAN'', ''AUS'', ''NZL'', ''JPN'']"
  by (simp_all add: DEVELOPED_16_def PORTUGAL_def)

lemma basket_values_portugal:
  assumes "PORTUGAL \<in> set (columns wide)" and "cell wide y PORTUGAL = Some v"
  shows "sum_list (basket_values wide y) = v + sum_list (other_values wide y)"
    and "length (basket_values wide y) = 1 + length (other_values wide y)"
proof -
  show "sum_list (basket_values wide y) = v + sum_list (other_values wide y)"
    unfolding basket_values_def other_values_def DEVELOPED_16_split(2)
    unfolding DEVELOPED_16_split(1)
    by (rule map_filter_split(1)) (simp add: assms)
  show "length (basket_values wide y) = 1 + length (other_values wide y)"
    unfolding basket_values_def other_values_def DEVELOPED_16_split(2)
    unfolding DEVELOPED_16_split(1)
    by (rule map_filter_split(2)) (simp add: assms)
qed

subsection \<open>The masked mean\<close>

text \<open>
  Claim C1. For every wide table, \<open>compute_portugal_vs_mean\<close> returns a table with one row
  per entry of the index, and in the row of each year the 16-country mean is missing
  exactly when fewer than 12 of the 16 basket-code columns have a value that year, and is
  otherwise the arithmetic mean of the values those columns have that year.
\<close>

theorem masked_mean_is_mean_of_present_values:
  "\<exists>out. compute_portugal_vs_mean wide DEVELOPED_16 PORTUGAL = Inr out
     \<and> length (rows out) = length (index wide)
     \<and> (\<forall>i < length (index wide).
          (Media_16_gdp_pc (rows out ! i) = None
             \<longleftrightarrow> length (basket_values wide (index wide ! i)) < 12)
        \<and> (12 \<le> length (basket_values wide (index wide ! i)) \<longrightarrow>
             Media_16_gdp_pc (rows out ! i)
               = Some (arithmetic_mean (basket_values wide (index wide ! i)))))"
  by (simp add: compute_16 result_row_def masked_mean_16)

text \<open>The theorem at a table with 11, 12 and 16 values in three years.\<close>

theorem masked_mean_is_mean_of_present_values_witness:
  "length (index coverage_table) = 3
   \<and> length (basket_values coverage_table (index coverage_table ! 0)) = 11
   \<and> length (basket_values coverage_table (index coverage_table ! 1)) = 12
   \<and> length (basket_values coverage_table (index coverage_table ! 2)) = 16
   \<and> (\<exists>out. compute_portugal_vs_mean coverage_table DEVELOPED_16 PORTUGAL = Inr out
         \<and> Media_16_gdp_pc (rows out ! 0) = None
         \<and> Media_16_gdp_pc (rows out ! 1) = Some 100
         \<and> Media_16_gdp_pc (rows out ! 2) = Some (395 / 4))"
proof -
  have len: "length (index coverage_table) = 3"
    by code_simp
  have b0: "length (basket_values coverage_table (index coverage_table ! 0)) = 11"
    by code_simp
  have b1: "length (basket_values coverage_table (index coverage_table ! 1)) = 12"
    by code_simp
  have b2: "length (basket_values coverage_table (index coverage_table ! 2)) = 16"
    by code_simp
  have m1: "arithmetic_mean (basket_values coverage_table (index coverage_table ! 1)) = 100"
    by code_simp
  have m2: "arithmetic_mean (basket_values coverage_table (index coverage_table ! 2)) = 395 / 4"
    by code_simp
  from masked_mean_is_mean_of_present_values [of coverage_table]
  obtain out where out: "compute_portugal_vs_mean coverage_table DEVELOPED_16 PORTUGAL = Inr out"
    and all: "\<forall>i < length (index coverage_table).
          (Media_16_gdp_pc (rows out ! i) = None
             \<longleftrightarrow> length (basket_values coverage_table (index coverage_table ! i)) < 12)
        \<and> (12 \<le> length (basket_values coverage_table (index coverage_table ! i)) \<longrightarrow>
             Media_16_gdp_pc (rows out ! i)
               = Some (arithmetic_mean (basket_values coverage_table (index coverage_table ! i))))"
    by blast
  from all len b0 have r0: "Media_16_gdp_pc (rows out ! 0) = None" by simp
  from all len b1 m1 have r1: "Media_16_gdp_pc (rows out ! 1) = Some 100" by simp
  from all len b2 m2 have r2: "Media_16_gdp_pc (rows out ! 2) = Some (395 / 4)" by simp
  from len b0 b1 b2 out r0 r1 r2 show ?thesis by blast
qed

subsection \<open>The percentage ratio\<close>

text \<open>
  Claim C2, as stated, fails: in the table whose 16 basket columns are all zero in the year
  2000, Portugal's value and the masked mean are both present (both are 0), and the ratio
  is missing, since \<open>0 / 0\<close> is NaN.
\<close>

theorem ratio_missing_at_zero_mean_counterexample:
  "compute_portugal_vs_mean zero_table DEVELOPED_16 PORTUGAL = Inr
     \<lparr>header = [''year'', ''Portugal_gdp_pc'', ''Media_16_gdp_pc'', ''Portugal_pct_da_media_16''],
      rows = [\<lparr>out_year = 2000, Portugal_gdp_pc = Some 0, Media_16_gdp_pc = Some 0,
               Portugal_pct_da_media_16 = None\<rparr>]\<rparr>"
  by code_simp

text \<open>
  Claim C2, amended. In every row of the result the ratio is determined by the two
  operands as \<open>ratio_of\<close> says: it is missing when Portugal's value or the masked mean is
  missing, and when both are zero; it is Portugal's value over the mean, times 100, when
  both are present and the mean is not zero; it is an infinity when the mean is zero and
  Portugal's value is not.
\<close>

theorem ratio_defined_from_operands:
  "\<exists>out. compute_portugal_vs_mean wide DEVELOPED_16 PORTUGAL = Inr out
     \<and> length (rows out) = length (index wide)
     \<and> (\<forall>r \<in> set (rows out).
          Portugal_pct_da_media_16 r = ratio_of (Portugal_gdp_pc r) (Media_16_gdp_pc r))"
  by (simp add: compute_16 result_row_def pct_div_float)

text \<open>The theorem at a table with Portugal at 50 and the mean at 100 in one year, and
  both missing in another.\<close>

theorem ratio_defined_from_operands_witness:
  "\<exists>out. compute_portugal_vs_mean fifty_table DEVELOPED_16 PORTUGAL = Inr out
     \<and> rows out ! 0 \<in> set (rows out) \<and> rows out ! 1 \<in> set (rows out)
     \<and> Portugal_gdp_pc (rows out ! 0) = Some 50 \<and> Media_16_gdp_pc (rows out ! 0) = Some 100
     \<and> Portugal_pct_da_media_16 (rows out ! 0) = Some (Finite 50)
     \<and> Portugal_gdp_pc (rows out ! 1) = None \<and> Media_16_gdp_pc (rows out ! 1) = None
     \<and> Portugal_pct_da_media_16 (rows out ! 1) = None"
proof -
  have ev: "compute_portugal_vs_mean fifty_table DEVELOPED_16 PORTUGAL = Inr
     \<lparr>header = [''year'', ''Portugal_gdp_pc'', ''Media_16_gdp_pc'', ''Portugal_pct_da_media_16''],
      rows = [\<lparr>out_year = 2000, Portugal_gdp_pc = Some 50, Media_16_gdp_pc = Some 100,
               Portugal_pct_da_media_16 = ratio_of (Some 50) (Some 100)\<rparr>,
              \<lparr>out_year = 2001, Portugal_gdp_pc = None, Media_16_gdp_pc = None,
               Portugal_pct_da_media_16 = ratio_of None None\<rparr>]\<rparr>"
    by code_simp
  show ?thesis
    using ratio_defined_from_operands [of fifty_table] ev
    by (simp add: ratio_of_def)
qed

subsection \<open>Portugal's column\<close>

text \<open>
  Claim C7. For every wide table that has no column for Portugal's code,
  \<open>compute_portugal_vs_mean\<close> returns a result (it raises nothing), with one row per year
  of the index, and in every row Portugal's value and the ratio are missing.
\<close>

theorem portugal_absent_all_missing:
  assumes "PORTUGAL \<notin> set (columns wide)"
  shows "\<exists>out. compute_portugal_vs_mean wide DEVELOPED_16 PORTUGAL = Inr out
     \<and> map out_year (rows out) = index wide
     \<and> (\<forall>r \<in> set (rows out). Portugal_gdp_pc r = None \<and> Portugal_pct_da_media_16 r = None)"
  using assms
  by (simp add: compute_16 result_row_def portugal_value_def pct_div_float ratio_of_def o_def)

text \<open>The theorem at a table with the 15 other basket columns only.\<close>

theorem portugal_absent_all_missing_witness:
  "PORTUGAL \<notin> set (columns no_portugal_table)
   \<and> (\<exists>out. compute_portugal_vs_mean no_portugal_table DEVELOPED_16 PORTUGAL = Inr out
        \<and> map out_year (rows out) = [2000, 2001]
        \<and> map Portugal_gdp_pc (rows out) = [None, None]
        \<and> map Media_16_gdp_pc (rows out) = [Some 100, Some 200]
        \<and> map Portugal_pct_da_media_16 (rows out) = [None, None])"
proof -
  have absent: "PORTUGAL \<notin> set (columns no_portugal_table)"
    by code_simp
  have ev: "compute_portugal_vs_mean no_portugal_table DEVELOPED_16 PORTUGAL = Inr
     \<lparr>header = [''year'', ''Portugal_gdp_pc'', ''Media_16_gdp_pc'', ''Portugal_pct_da_media_16''],
      rows = [\<lparr>out_year = 2000, Portugal_gdp_pc = None, Media_16_gdp_pc = Some 100,
               Portugal_pct_da_media_16 = None\<rparr>,
              \<lparr>out_year = 2001, Portugal_gdp_pc = None, Media_16_gdp_pc = Some 200,
               Portugal_pct_da_media_16 = None\<rparr>]\<rparr>"
    by code_simp
  show ?thesis
    using portugal_absent_all_missing [OF absent] absent ev by simp
qed

text \<open>
  Claim C10. Portugal's code is a member of the basket; so in a year where Portugal's
  column has the value \<open>v\<close>, the coverage count compared with 12 is one more than the
  count of the other 15 codes, and the mean that the ratio divides by is \<open>v\<close> plus the sum
  of the others' values, over that count.
\<close>

theorem portugal_counts_in_its_own_basket:
  "PORTUGAL \<in> set DEVELOPED_16
   \<and> (\<forall>i < length (index wide).
        PORTUGAL \<in> set (columns wide) \<and> cell wide (index wide ! i) PORTUGAL = Some v \<longrightarrow>
        (\<exists>out. compute_portugal_vs_mean wide DEVELOPED_16 PORTUGAL = Inr out
           \<and> Portugal_gdp_pc (rows out ! i) = Some v
           \<and> length (basket_values wide (index wide ! i))
               = 1 + length (other_values wide (index wide ! i))
           \<and> Media_16_gdp_pc (rows out ! i)
               = (if 1 + length (other_values wide (index wide ! i)) < 12 then None
                  else Some ((v + sum_list (other_values wide (index wide ! i)))
                             / of_nat (1 + length (other_values wide (index wide ! i)))))))"
proof -
  have "PORTUGAL \<in> set DEVELOPED_16"
    by (simp add: DEVELOPED_16_def PORTUGAL_def)
  moreover have "\<exists>out. compute_portugal_vs_mean wide DEVELOPED_16 PORTUGAL = Inr out
           \<and> Portugal_gdp_pc (rows out ! i) = Some v
           \<and> length (basket_values wide (index wide ! i))
               = 1 + length (other_values wide (index wide ! i))
           \<and> Media_16_gdp_pc (rows out ! i)
               = (if 1 + length (other_values wide (index wide ! i)) < 12 then None
                  else Some ((v + sum_list (other_values wide (index wide ! i)))
                             / of_nat (1 + length (other_values wide (index wide ! i)))))"
    if "i < length (index wide)" and "PORTUGAL \<in> set (columns wide)"
      and "cell wide (index wide ! i) PORTUGAL = Some v" for i
    using that basket_values_portugal [OF that(2,3)]
    by (simp add: compute_16 result_row_def portugal_value_def masked_mean_16 arithmetic_mean_def)
  ultimately show ?thesis by blast
qed

text \<open>The theorem at the table with Portugal at 50 and the 15 others summing to 1550.\<close>

theorem portugal_counts_in_its_own_basket_witness:
  "(0::nat) < length (index fifty_table) \<and> PORTUGAL \<in> set (columns fifty_table)
   \<and> cell fifty_table (index fifty_table ! 0) PORTUGAL = Some 50
   \<and> other_values fifty_table (index fifty_table ! 0)
       = [150, 100, 100, 100, 100, 100, 100, 100, 100, 100, 100, 100, 100, 100, 100]
   \<and> (\<exists>out. compute_portugal_vs_mean fifty_table DEVELOPED_16 PORTUGAL = Inr out
         \<and> Portugal_gdp_pc (rows out ! 0) = Some 50
         \<and> Media_16_gdp_pc (rows out ! 0) = Some ((50 + 1550) / 16))"
proof -
  have a: "(0::nat) < length (index fifty_table)" by code_simp
  have b: "PORTUGAL \<in> set (columns fifty_table)" by code_simp
  have c: "cell fifty_table (index fifty_table ! 0) PORTUGAL = Some 50" by code_simp
  have d: "other_values fifty_table (index fifty_table ! 0)
       = [150, 100, 100, 100, 100, 100, 100, 100, 100, 100, 100, 100, 100, 100, 100]"
    by code_simp
  from portugal_counts_in_its_own_basket [of fifty_table 50] a b c
  obtain out where "compute_portugal_vs_mean fifty_table DEVELOPED_16 PORTUGAL = Inr out"
    and "Portugal_gdp_pc (rows out ! 0) = Some 50"
    and "Media_16_gdp_pc (rows out ! 0)
          = (if 1 + length (other_values fifty_table (index fifty_table ! 0)) < 12 then None
             else Some ((50 + sum_list (other_values fifty_table (index fifty_table ! 0)))
                        / of_nat (1 + length (other_values fifty_table (index fifty_table ! 0)))))"
    by blast
  with a b c d show ?thesis by simp
qed

subsection \<open>The year filter and the pivot\<close>

lemma year_in_range_code [code]:
  "year_in_range lo hi r = (case year r of None \<Rightarrow> False | Some y \<Rightarrow> lo \<le> y \<and> y \<le> hi)"
  by (simp add: year_in_range_def split: option.splits)

lemma filter_years_eq: "filter_years df s e = filter (year_in_range s e) df"
  by (auto simp: filter_years_def year_in_range_def ge_scalar_def le_scalar_def
      split: option.splits intro!: filter_cong)

lemma set_group_keys:
  "set (group_keys df) = {(y, c). \<exists>r \<in> set df. year r = Some y \<and> code r = Some c}"
  by (auto simp: group_keys_def List.map_filter_def split: option.splits) force

lemma first_agg_None_iff: "first_agg vs = None \<longleftrightarrow> (\<forall>v \<in> set vs. v = None)"
  by (induction vs) (auto simp: first_agg_def)

lemma first_agg_first:
  assumes "\<forall>x \<in> set pre. x = None"
  shows "first_agg (pre @ Some v # post) = Some v"
  using assms by (induction pre) (auto simp: first_agg_def)

lemma group_values_Nil_iff:
  "group_values df y c = [] \<longleftrightarrow> (y, c) \<notin> set (group_keys df)"
  by (auto simp: group_values_def set_group_keys filter_empty_conv)

lemma map_of_filter_graph:
  "map_of (filter (\<lambda>(k, v). v \<noteq> None) (map (\<lambda>k. (k, g k)) ks)) k
     = (if k \<in> set ks \<and> g k \<noteq> None then Some (g k) else None)"
  by (induction ks) auto

lemma agged_graph:
  "agged df = filter (\<lambda>(k, v). v \<noteq> None)
     (map (\<lambda>k. (k, first_agg (group_values df (fst k) (snd k)))) (group_keys df))"
  by (simp add: agged_def case_prod_unfold)

lemma map_of_agged:
  "map_of (agged df) (y, c)
     = (if first_agg (group_values df y c) \<noteq> None then Some (first_agg (group_values df y c))
        else None)"
proof -
  have "first_agg (group_values df y c) = None" if "(y, c) \<notin> set (group_keys df)"
    using that by (simp add: group_values_Nil_iff [symmetric] first_agg_def)
  then show ?thesis
    unfolding agged_graph map_of_filter_graph by auto
qed

lemma first_agg_group_key:
  assumes "first_agg (group_values df y c) \<noteq> None"
  shows "(y, c) \<in> set (group_keys df)"
proof (rule ccontr)
  assume "(y, c) \<notin> set (group_keys df)"
  then have "group_values df y c = []" by (simp add: group_values_Nil_iff)
  then have "first_agg (group_values df y c) = None" by (simp add: first_agg_def)
  with assms show False by simp
qed

lemma set_agged:
  "set (agged df) = {((y, c), v). v = first_agg (group_values df y c) \<and> v \<noteq> None}"
  unfolding agged_graph using first_agg_group_key by auto

lemma cell_unstack: "cell (unstack (agged df)) y c = first_agg (group_values df y c)"
  by (simp add: unstack_def map_of_agged)

lemma set_index_unstack:
  "set (index (unstack (agged df))) = {y. \<exists>c. first_agg (group_values df y c) \<noteq> None}"
proof -
  have "set (index (unstack (agged df))) = (fst \<circ> fst) ` set (agged df)"
    by (simp add: unstack_def)
  also have "\<dots> = {y. \<exists>c. first_agg (group_values df y c) \<noteq> None}"
    unfolding set_agged by force
  finally show ?thesis .
qed

lemma set_columns_unstack:
  "set (columns (unstack (agged df))) = {c. \<exists>y. first_agg (group_values df y c) \<noteq> None}"
proof -
  have "set (columns (unstack (agged df))) = (snd \<circ> fst) ` set (agged df)"
    by (simp add: unstack_def)
  also have "\<dots> = {c. \<exists>y. first_agg (group_values df y c) \<noteq> None}"
    unfolding set_agged by force
  finally show ?thesis .
qed

lemma cell_pivot: "cell (pivot_table_first df) y c = first_agg (group_values df y c)"
  by (simp add: pivot_table_first_def dropna_columns_def cell_unstack)

lemma index_pivot: "index (pivot_table_first df) = index (unstack (agged df))"
  by (simp add: pivot_table_first_def dropna_columns_def)

lemma set_index_pivot:
  "set (index (pivot_table_first df)) = {y. \<exists>c. first_agg (group_values df y c) \<noteq> None}"
  by (simp add: index_pivot set_index_unstack)

lemma set_columns_pivot:
  "set (columns (pivot_table_first df)) = {c. \<exists>y. first_agg (group_values df y c) \<noteq> None}"
proof -
  have "set (columns (pivot_table_first df))
      = {c \<in> set (columns (unstack (agged df))).
           \<exists>y \<in> set (index (unstack (agged df))). cell (unstack (agged df)) y c \<noteq> None}"
    by (simp add: pivot_table_first_def dropna_columns_def)
  also have "\<dots> = {c. \<exists>y. first_agg (group_values df y c) \<noteq> None}"
    unfolding set_columns_unstack set_index_unstack cell_unstack by blast
  finally show ?thesis .
qed

lemma sorted_index_pivot:
  "sorted (index (pivot_table_first df))" "distinct (index (pivot_table_first df))"
  by (simp_all add: index_pivot unstack_def)

lemma group_values_filter_years:
  assumes "s \<le> y" and "y \<le> e"
  shows "group_values (filter_years df s e) y c = group_values df y c"
proof -
  have "filter (\<lambda>r. year r = Some y \<and> code r = Some c) (filter (year_in_range s e) df)
      = filter (\<lambda>r. year r = Some y \<and> code r = Some c) df"
    unfolding filter_filter
    by (rule filter_cong [OF refl]) (use assms in \<open>auto simp: year_in_range_def\<close>)
  then show ?thesis by (simp add: group_values_def filter_years_eq)
qed

lemma group_values_first:
  assumes "i < length df" and "year (df ! i) = Some y" and "code (df ! i) = Some c"
    and "gdp_per_capita (df ! i) = Some v"
    and "\<forall>j < i. year (df ! j) = Some y \<and> code (df ! j) = Some c \<longrightarrow> gdp_per_capita (df ! j) = None"
  shows "first_agg (group_values df y c) = Some v"
proof -
  let ?P = "\<lambda>r. year r = Some y \<and> code r = Some c"
  have split: "df = take i df @ df ! i # drop (Suc i) df"
    using assms(1) by (simp add: id_take_nth_drop)
  have pre: "\<forall>x \<in> set (map gdp_per_capita (filter ?P (take i df))). x = None"
  proof
    fix x assume "x \<in> set (map gdp_per_capita (filter ?P (take i df)))"
    then obtain r where r: "r \<in> set (take i df)" "?P r" "x = gdp_per_capita r" by auto
    from r(1) obtain j where "j < i" "j < length df" "r = df ! j"
      by (auto simp: in_set_conv_nth)
    with assms(5) r show "x = None" by auto
  qed
  have "group_values df y c
      = map gdp_per_capita (filter ?P (take i df)) @ Some v
          # map gdp_per_capita (filter ?P (drop (Suc i) df))"
    unfolding group_values_def
    by (subst split) (simp add: assms(2-4))
  then show ?thesis using pre by (simp add: first_agg_first)
qed

lemma all_less_upt: "(\<forall>j < n. P j) \<longleftrightarrow> list_all P [0..<n]"
  by (auto simp: list_all_iff)

lemma first_agg_Some_iff:
  "first_agg (group_values df y c) \<noteq> None
     \<longleftrightarrow> (\<exists>r \<in> set df. year r = Some y \<and> code r = Some c \<and> gdp_per_capita r \<noteq> None)"
  by (auto simp: first_agg_None_iff group_values_def)

lemma set_index_prepare_wide:
  "set (index (prepare_wide df s e))
     = {y. s \<le> y \<and> y \<le> e
           \<and> (\<exists>r \<in> set df. year r = Some y \<and> code r \<noteq> None \<and> gdp_per_capita r \<noteq> None)}"
  unfolding prepare_wide_def set_index_pivot first_agg_Some_iff
  by (auto simp: filter_years_eq year_in_range_def)

lemma detect_columns_error:
  assumes "detect_columns cols = Inl exc"
  shows "exc = ValueError (unresolved cols) cols"
  using assms by (simp add: detect_columns_closed split: if_splits)

text \<open>
  Claim C5. For every raw table and all bounds, the year filter keeps, in their order,
  exactly the rows whose year lies between \<open>start_year\<close> and \<open>end_year\<close>, both
  included. When \<open>start_year \<le> end_year\<close>, a row whose year equals either bound is kept, and
  a row one year below \<open>start_year\<close> or one year above \<open>end_year\<close> is dropped.
\<close>

theorem year_filter_inclusive:
  "filter_years df s e = filter (year_in_range s e) df
   \<and> (s \<le> e \<longrightarrow>
       (\<forall>r \<in> set df.
          (year r = Some s \<or> year r = Some e \<longrightarrow> r \<in> set (filter_years df s e))
        \<and> (year r = Some (s - 1) \<or> year r = Some (e + 1) \<longrightarrow> r \<notin> set (filter_years df s e))))"
  by (auto simp: filter_years_eq year_in_range_def)

text \<open>The theorem at the table with duplicates and the bounds 1950 and 1951.\<close>

theorem year_filter_inclusive_witness:
  "(1950::int) \<le> 1951
   \<and> filter_years duplicate_rows 1950 1951
       = [duplicate_rows ! 0, duplicate_rows ! 1, duplicate_rows ! 2, duplicate_rows ! 3,
          duplicate_rows ! 4, duplicate_rows ! 5, duplicate_rows ! 8]
   \<and> duplicate_rows ! 3 \<in> set duplicate_rows \<and> year (duplicate_rows ! 3) = Some 1951
   \<and> duplicate_rows ! 3 \<in> set (filter_years duplicate_rows 1950 1951)
   \<and> duplicate_rows ! 6 \<in> set duplicate_rows \<and> year (duplicate_rows ! 6) = Some (1950 - 1)
   \<and> duplicate_rows ! 6 \<notin> set (filter_years duplicate_rows 1950 1951)
   \<and> duplicate_rows ! 7 \<in> set duplicate_rows \<and> year (duplicate_rows ! 7) = Some (1951 + 1)
   \<and> duplicate_rows ! 7 \<notin> set (filter_years duplicate_rows 1950 1951)"
proof -
  have f: "filter (year_in_range 1950 1951) duplicate_rows
       = [duplicate_rows ! 0, duplicate_rows ! 1, duplicate_rows ! 2, duplicate_rows ! 3,
          duplicate_rows ! 4, duplicate_rows ! 5, duplicate_rows ! 8]"
    by code_simp
  have m: "duplicate_rows ! 3 \<in> set duplicate_rows" "duplicate_rows ! 6 \<in> set duplicate_rows"
    "duplicate_rows ! 7 \<in> set duplicate_rows"
    by (simp_all add: duplicate_rows_def)
  have y: "year (duplicate_rows ! 3) = Some 1951" "year (duplicate_rows ! 6) = Some (1950 - 1)"
    "year (duplicate_rows ! 7) = Some (1951 + 1)"
    by (simp_all add: duplicate_rows_def)
  show ?thesis
    using year_filter_inclusive [of duplicate_rows 1950 1951] f m y by auto
qed

text \<open>
  Claim C6. Take a row of the raw table, inside the range of years, with a code and a
  value, such that no earlier row of the same year and code has a value. Then the cell of
  the wide table at that year and code holds this row's value, whatever the later rows of
  the same year and code hold. (An earlier row of the pair whose value is missing does not
  count: \<open>GroupBy.first\<close> skips missing entries.)
\<close>

theorem pivot_keeps_first_value:
  assumes "i < length df" and "year (df ! i) = Some y" and "code (df ! i) = Some c"
    and "gdp_per_capita (df ! i) = Some v" and "s \<le> y" and "y \<le> e"
    and "\<forall>j < i. year (df ! j) = Some y \<and> code (df ! j) = Some c
                   \<longrightarrow> gdp_per_capita (df ! j) = None"
  shows "cell (prepare_wide df s e) y c = Some v
     \<and> y \<in> set (index (prepare_wide df s e)) \<and> c \<in> set (columns (prepare_wide df s e))"
proof -
  have "first_agg (group_values (filter_years df s e) y c) = Some v"
    using assms by (simp add: group_values_filter_years group_values_first)
  then show ?thesis
    by (auto simp: prepare_wide_def cell_pivot set_index_pivot set_columns_pivot)
qed

text \<open>
  The theorem at the table with duplicates: Portugal in 1950 has 80 then 90, and the cell
  holds 80; the United Kingdom in 1950 has a missing value, then 100, then 110, and the
  cell holds 100.
\<close>

theorem pivot_keeps_first_value_witness:
  "(0::nat) < length duplicate_rows \<and> (4::nat) < length duplicate_rows
   \<and> gdp_per_capita (duplicate_rows ! 0) = Some 80 \<and> gdp_per_capita (duplicate_rows ! 2) = Some 90
   \<and> cell (prepare_wide duplicate_rows 1949 1952) 1950 ''PRT'' = Some 80
   \<and> gdp_per_capita (duplicate_rows ! 1) = None
   \<and> gdp_per_capita (duplicate_rows ! 4) = Some 100 \<and> gdp_per_capita (duplicate_rows ! 5) = Some 110
   \<and> cell (prepare_wide duplicate_rows 1949 1952) 1950 ''GBR'' = Some 100"
proof -
  have len: "(0::nat) < length duplicate_rows" "(4::nat) < length duplicate_rows"
    by (simp_all add: duplicate_rows_def)
  have r0: "year (duplicate_rows ! 0) = Some 1950" "code (duplicate_rows ! 0) = Some ''PRT''"
    "gdp_per_capita (duplicate_rows ! 0) = Some 80"
    by (simp_all add: duplicate_rows_def)
  have r4: "year (duplicate_rows ! 4) = Some 1950" "code (duplicate_rows ! 4) = Some ''GBR''"
    "gdp_per_capita (duplicate_rows ! 4) = Some 100"
    by (simp_all add: duplicate_rows_def)
  have others: "gdp_per_capita (duplicate_rows ! 2) = Some 90"
    "gdp_per_capita (duplicate_rows ! 1) = None" "gdp_per_capita (duplicate_rows ! 5) = Some 110"
    by (simp_all add: duplicate_rows_def)
  have e0: "\<forall>j < 0. year (duplicate_rows ! j) = Some 1950 \<and> code (duplicate_rows ! j) = Some ''PRT''
                   \<longrightarrow> gdp_per_capita (duplicate_rows ! j) = None"
    by simp
  have e4: "\<forall>j < 4. year (duplicate_rows ! j) = Some 1950 \<and> code (duplicate_rows ! j) = Some ''GBR''
                   \<longrightarrow> gdp_per_capita (duplicate_rows ! j) = None"
    unfolding all_less_upt by code_simp
  have rng: "(1949::int) \<le> 1950" "(1950::int) \<le> 1952" by simp_all
  show ?thesis
    using pivot_keeps_first_value [OF len(1) r0 rng e0]
      pivot_keeps_first_value [OF len(2) r4 rng e4] len r0 r4 others
    by simp
qed

subsection \<open>The result table\<close>

text \<open>
  Claim C9. For every wide table, \<open>compute_portugal_vs_mean\<close> returns a table whose columns
  are year, Portugal's value, the masked mean and the ratio, with one row per entry of the
  index of the wide table, in the order of the index. The index that \<open>prepare_wide\<close>
  produces is strictly ascending, and holds exactly the years of the range for which some
  row of the raw table has a code and a value.
\<close>

theorem result_rows_follow_index:
  "(\<exists>out. compute_portugal_vs_mean wide DEVELOPED_16 PORTUGAL = Inr out
      \<and> header out = [''year'', ''Portugal_gdp_pc'', ''Media_16_gdp_pc'',
                      ''Portugal_pct_da_media_16'']
      \<and> map out_year (rows out) = index wide)
   \<and> sorted_wrt (<) (index (prepare_wide df s e))
   \<and> set (index (prepare_wide df s e))
       = {y. s \<le> y \<and> y \<le> e
             \<and> (\<exists>r \<in> set df. year r = Some y \<and> code r \<noteq> None \<and> gdp_per_capita r \<noteq> None)}"
proof -
  have "sorted_wrt (<) (index (prepare_wide df s e))"
    by (simp add: strict_sorted_iff prepare_wide_def sorted_index_pivot)
  then show ?thesis
    by (simp add: compute_16 result_row_def o_def set_index_prepare_wide)
qed

text \<open>The theorem at the table with duplicates and the bounds 1950 and 1951.\<close>

theorem result_rows_follow_index_witness:
  "index (prepare_wide duplicate_rows 1950 1951) = [1950, 1951]
   \<and> (\<exists>out. compute_portugal_vs_mean (prepare_wide duplicate_rows 1950 1951) DEVELOPED_16 PORTUGAL
              = Inr out
         \<and> header out = [''year'', ''Portugal_gdp_pc'', ''Media_16_gdp_pc'',
                         ''Portugal_pct_da_media_16'']
         \<and> map out_year (rows out) = [1950, 1951])
   \<and> sorted_wrt (<) (index (prepare_wide duplicate_rows 1950 1951))
   \<and> duplicate_rows ! 3 \<in> set duplicate_rows \<and> year (duplicate_rows ! 3) = Some 1951
   \<and> code (duplicate_rows ! 3) \<noteq> None \<and> gdp_per_capita (duplicate_rows ! 3) \<noteq> None
   \<and> 1951 \<in> set (index (prepare_wide duplicate_rows 1950 1951))"
proof -
  have idx: "index (prepare_wide duplicate_rows 1950 1951) = [1950, 1951]"
    by code_simp
  have row: "duplicate_rows ! 3 \<in> set duplicate_rows" "year (duplicate_rows ! 3) = Some 1951"
    "code (duplicate_rows ! 3) \<noteq> None" "gdp_per_capita (duplicate_rows ! 3) \<noteq> None"
    by (simp_all add: duplicate_rows_def)
  show ?thesis
    using result_rows_follow_index
      [of "prepare_wide duplicate_rows 1950 1951" duplicate_rows 1950 1951] idx row
    by auto
qed

subsection \<open>The end-to-end scenario\<close>

text \<open>
  Claim C3, as stated, fails: on the rows of the scenario the pipeline does not output the
  mean 100 and the ratio 80. Portugal's 80 is one of the 16 values of the mean.
\<close>

theorem end_to_end_scenario_counterexample:
  "compute_portugal_vs_mean (prepare_wide scenario_rows 1950 1950) DEVELOPED_16 PORTUGAL \<noteq> Inr
     \<lparr>header = [''year'', ''Portugal_gdp_pc'', ''Media_16_gdp_pc'', ''Portugal_pct_da_media_16''],
      rows = [\<lparr>out_year = 1950, Portugal_gdp_pc = Some 80, Media_16_gdp_pc = Some 100,
               Portugal_pct_da_media_16 = Some (Finite 80)\<rparr>]\<rparr>"
  by code_simp

text \<open>
  Claim C3, amended. On the rows of the scenario, with both bounds 1950, the pipeline
  outputs the single row with year 1950, Portugal's value 80, the mean
  \<open>(80 + 15 * 100) / 16 = 98.75\<close> and the ratio \<open>80 / 98.75 * 100 = 6400 / 79\<close>, about 81.01.
\<close>

theorem end_to_end_scenario:
  "compute_portugal_vs_mean (prepare_wide scenario_rows 1950 1950) DEVELOPED_16 PORTUGAL = Inr
     \<lparr>header = [''year'', ''Portugal_gdp_pc'', ''Media_16_gdp_pc'', ''Portugal_pct_da_media_16''],
      rows = [\<lparr>out_year = 1950, Portugal_gdp_pc = Some 80, Media_16_gdp_pc = Some (395 / 4),
               Portugal_pct_da_media_16 = Some (Finite (6400 / 79))\<rparr>]\<rparr>"
  by code_simp

subsection \<open>The exit status of \<open>main\<close>\<close>

text \<open>
  Claim C8. When the download succeeds and column detection raises, \<open>main\<close> prints the
  error, which lists the unmatched fields and the available columns, on standard error as
  its last output and exits with status 1. When detection succeeds and \<open>prepare_wide\<close>
  returns a wide table, the aggregator returns a result; if the CSV is then written and the
  plot raises an exception, \<open>main\<close> ends with exit status 0, its last outputs being the
  CSV, the message that the CSV was saved, and the plot's error on standard error. When
  detection succeeds and \<open>prepare_wide\<close> raises, as it does with \<open>KeyError\<close> when one
  column was detected for two fields and no column is left with the label \<open>year\<close>,
  nothing catches the exception: the run ends there, before any CSV is written.
\<close>

theorem main_exit_status:
  "(download_csv w (source_url a) = Inr df \<and> detect_columns (df_columns df) = Inl exc \<longrightarrow>
      exc = ValueError (unresolved (df_columns df)) (df_columns df)
      \<and> main w a = ([Stdout A_descarregar_dados, Stdout (Colunas_disponiveis (df_columns df)),
                     Stderr (Erro_a_detetar_colunas exc)], Exit 1))
   \<and> (download_csv w (source_url a) = Inr df
      \<and> detect_columns (df_columns df) = Inr (year_col, country_col, code_col, value_col)
      \<and> prepare_wide_renaming df year_col country_col code_col value_col
            (start_year a) (end_year a) = Some (Inr wide) \<longrightarrow>
      (\<exists>out. compute_portugal_vs_mean wide DEVELOPED_16 PORTUGAL = Inr out
         \<and> (to_csv w out (out_csv a) = None \<and> plot_ratio w out (out_png a) = Some e \<longrightarrow>
              snd (main w a) = Exit 0
              \<and> (\<exists>before. fst (main w a)
                    = before @ [CsvWritten (out_csv a) out, Stdout (CSV_guardado_em (out_csv a)),
                                Stderr (Erro_ao_gerar_grafico e)]))))
   \<and> (download_csv w (source_url a) = Inr df
      \<and> detect_columns (df_columns df) = Inr (year_col, country_col, code_col, value_col)
      \<and> prepare_wide_renaming df year_col country_col code_col value_col
            (start_year a) (end_year a) = Some (Inl err) \<longrightarrow>
      main w a = ([Stdout A_descarregar_dados, Stdout (Colunas_disponiveis (df_columns df)),
                   Stdout (Usando_colunas year_col country_col code_col value_col)],
                  Uncaught err))"
proof (intro conjI impI)
  assume h: "download_csv w (source_url a) = Inr df \<and> detect_columns (df_columns df) = Inl exc"
  then show exc: "exc = ValueError (unresolved (df_columns df)) (df_columns df)"
    by (simp add: detect_columns_error)
  from h have "is_ValueError exc" unfolding exc by simp
  with h show "main w a = ([Stdout A_descarregar_dados, Stdout (Colunas_disponiveis (df_columns df)),
                     Stderr (Erro_a_detetar_colunas exc)], Exit 1)"
    by (simp add: main_def)
next
  assume h: "download_csv w (source_url a) = Inr df
      \<and> detect_columns (df_columns df) = Inr (year_col, country_col, code_col, value_col)
      \<and> prepare_wide_renaming df year_col country_col code_col value_col
            (start_year a) (end_year a) = Some (Inr wide)"
  obtain out where out: "compute_portugal_vs_mean wide DEVELOPED_16 PORTUGAL = Inr out"
    by (simp add: compute_16)
  have "snd (main w a) = Exit 0
      \<and> (\<exists>before. fst (main w a)
            = before @ [CsvWritten (out_csv a) out, Stdout (CSV_guardado_em (out_csv a)),
                        Stderr (Erro_ao_gerar_grafico e)])"
    if "to_csv w out (out_csv a) = None \<and> plot_ratio w out (out_png a) = Some e"
    using h that out by (simp add: main_def Let_def)
  with out show "\<exists>out. compute_portugal_vs_mean wide DEVELOPED_16 PORTUGAL = Inr out
      \<and> (to_csv w out (out_csv a) = None \<and> plot_ratio w out (out_png a) = Some e \<longrightarrow>
            snd (main w a) = Exit 0
            \<and> (\<exists>before. fst (main w a)
                  = before @ [CsvWritten (out_csv a) out, Stdout (CSV_guardado_em (out_csv a)),
                              Stderr (Erro_ao_gerar_grafico e)]))"
    by blast
next
  assume "download_csv w (source_url a) = Inr df
      \<and> detect_columns (df_columns df) = Inr (year_col, country_col, code_col, value_col)
      \<and> prepare_wide_renaming df year_col country_col code_col value_col
            (start_year a) (end_year a) = Some (Inl err)"
  then show "main w a = ([Stdout A_descarregar_dados, Stdout (Colunas_disponiveis (df_columns df)),
                   Stdout (Usando_colunas year_col country_col code_col value_col)],
                  Uncaught err)"
    by (simp add: main_def)
qed


text \<open>
  The theorem at three runs: a header that lacks code and value; the scenario under the
  header of the dataset, where saving the plot raises; and a header whose value column is
  also detected as the year column.
\<close>

theorem main_exit_status_witness:
  "download_csv world_headless (source_url default_args) = Inr headless_frame
   \<and> detect_columns (df_columns headless_frame)
       = Inl (ValueError [''code'', ''gdp''] [''Entity'', ''Year'', ''Population''])
   \<and> main world_headless default_args
       = ([Stdout A_descarregar_dados,
           Stdout (Colunas_disponiveis [''Entity'', ''Year'', ''Population'']),
           Stderr (Erro_a_detetar_colunas
             (ValueError [''code'', ''gdp''] [''Entity'', ''Year'', ''Population'']))], Exit 1)
   \<and> download_csv world_plot_fails (source_url default_args) = Inr scenario_frame
   \<and> detect_columns (df_columns scenario_frame)
       = Inr (Some ''Year'', Some ''Entity'', Some ''Code'', Some ''GDP per capita'')
   \<and> prepare_wide_renaming scenario_frame (Some ''Year'') (Some ''Entity'') (Some ''Code'')
         (Some ''GDP per capita'') (start_year default_args) (end_year default_args)
       = Some (Inr (prepare_wide scenario_rows 1870 2022))
   \<and> (\<exists>out. compute_portugal_vs_mean (prepare_wide scenario_rows 1870 2022)
                DEVELOPED_16 PORTUGAL = Inr out
         \<and> to_csv world_plot_fails out (out_csv default_args) = None
         \<and> plot_ratio world_plot_fails out (out_png default_args)
             = Some (OtherException ''cannot save figure'')
         \<and> snd (main world_plot_fails default_args) = Exit 0
         \<and> (\<exists>before. fst (main world_plot_fails default_args)
               = before @ [CsvWritten (out_csv default_args) out,
                           Stdout (CSV_guardado_em (out_csv default_args)),
                           Stderr (Erro_ao_gerar_grafico (OtherException ''cannot save figure''))]))
   \<and> download_csv world_colliding (source_url default_args) = Inr colliding_frame
   \<and> detect_columns (df_columns colliding_frame)
       = Inr (Some ''GDP per capita in year 2011 prices'', Some ''Entity'', Some ''Code'',
              Some ''GDP per capita in year 2011 prices'')
   \<and> prepare_wide_renaming colliding_frame (Some ''GDP per capita in year 2011 prices'')
         (Some ''Entity'') (Some ''Code'') (Some ''GDP per capita in year 2011 prices'')
         (start_year default_args) (end_year default_args)
       = Some (Inl (KeyError ''year''))
   \<and> main world_colliding default_args
       = ([Stdout A_descarregar_dados,
           Stdout (Colunas_disponiveis
             [''Code'', ''Entity'', ''GDP per capita in year 2011 prices'', ''Year'']),
           Stdout (Usando_colunas (Some ''GDP per capita in year 2011 prices'') (Some ''Entity'')
             (Some ''Code'') (Some ''GDP per capita in year 2011 prices''))],
          Uncaught (KeyError ''year''))"
proof -
  have d1: "download_csv world_headless (source_url default_args) = Inr headless_frame"
    by (simp add: world_headless_def)
  have c1: "detect_columns (df_columns headless_frame)
       = Inl (ValueError [''code'', ''gdp''] [''Entity'', ''Year'', ''Population''])"
    by code_simp
  have cols1: "df_columns headless_frame = [''Entity'', ''Year'', ''Population'']"
    by (simp add: headless_frame_def df_columns_def)
  have d2: "download_csv world_plot_fails (source_url default_args) = Inr scenario_frame"
    by (simp add: world_plot_fails_def)
  have c2: "detect_columns (df_columns scenario_frame)
       = Inr (Some ''Year'', Some ''Entity'', Some ''Code'', Some ''GDP per capita'')"
    by code_simp
  have r2: "read_renamed (rename scenario_frame
        (rename_dict (Some ''Year'') (Some ''Entity'') (Some ''Code'') (Some ''GDP per capita'')))
       = Some (Inr scenario_rows)"
    by code_simp
  have p2: "prepare_wide_renaming scenario_frame (Some ''Year'') (Some ''Entity'') (Some ''Code'')
         (Some ''GDP per capita'') (start_year default_args) (end_year default_args)
       = Some (Inr (prepare_wide scenario_rows 1870 2022))"
    by (simp add: prepare_wide_renaming_def r2 default_args_def)
  have env: "to_csv world_plot_fails out (out_csv default_args) = None"
    "plot_ratio world_plot_fails out (out_png default_args)
       = Some (OtherException ''cannot save figure'')" for out
    by (simp_all add: world_plot_fails_def)
  have d3: "download_csv world_colliding (source_url default_args) = Inr colliding_frame"
    by (simp add: world_colliding_def)
  have c3: "detect_columns (df_columns colliding_frame)
       = Inr (Some ''GDP per capita in year 2011 prices'', Some ''Entity'', Some ''Code'',
              Some ''GDP per capita in year 2011 prices'')"
    by code_simp
  have cols3: "df_columns colliding_frame
       = [''Code'', ''Entity'', ''GDP per capita in year 2011 prices'', ''Year'']"
    by (simp add: colliding_frame_def df_columns_def)
  have r3: "read_renamed (rename colliding_frame
        (rename_dict (Some ''GDP per capita in year 2011 prices'') (Some ''Entity'')
           (Some ''Code'') (Some ''GDP per capita in year 2011 prices'')))
       = Some (Inl (KeyError ''year''))"
    by code_simp
  have p3: "prepare_wide_renaming colliding_frame (Some ''GDP per capita in year 2011 prices'')
         (Some ''Entity'') (Some ''Code'') (Some ''GDP per capita in year 2011 prices'')
         (start_year default_args) (end_year default_args)
       = Some (Inl (KeyError ''year''))"
    by (simp add: prepare_wide_renaming_def r3)
  from main_exit_status [of world_headless default_args headless_frame
      "ValueError [''code'', ''gdp''] [''Entity'', ''Year'', ''Population'']"] d1 c1 cols1
  have part1: "main world_headless default_args
       = ([Stdout A_descarregar_dados,
           Stdout (Colunas_disponiveis [''Entity'', ''Year'', ''Population'']),
           Stderr (Erro_a_detetar_colunas
             (ValueError [''code'', ''gdp''] [''Entity'', ''Year'', ''Population'']))], Exit 1)"
    by simp
  from main_exit_status [of world_plot_fails default_args scenario_frame _
      "Some ''Year''" "Some ''Entity''" "Some ''Code''" "Some ''GDP per capita''"
      "prepare_wide scenario_rows 1870 2022" "OtherException ''cannot save figure''"] d2 c2 p2 env
  have part2: "\<exists>out. compute_portugal_vs_mean (prepare_wide scenario_rows 1870 2022)
                DEVELOPED_16 PORTUGAL = Inr out
         \<and> snd (main world_plot_fails default_args) = Exit 0
         \<and> (\<exists>before. fst (main world_plot_fails default_args)
               = before @ [CsvWritten (out_csv default_args) out,
                           Stdout (CSV_guardado_em (out_csv default_args)),
                           Stderr (Erro_ao_gerar_grafico (OtherException ''cannot save figure''))])"
    by auto
  from main_exit_status [of world_colliding default_args colliding_frame _
      "Some ''GDP per capita in year 2011 prices''" "Some ''Entity''" "Some ''Code''"
      "Some ''GDP per capita in year 2011 prices''" _ _ "KeyError ''year''"] d3 c3 p3 cols3
  have part3: "main world_colliding default_args
       = ([Stdout A_descarregar_dados,
           Stdout (Colunas_disponiveis
             [''Code'', ''Entity'', ''GDP per capita in year 2011 prices'', ''Year'']),
           Stdout (Usando_colunas (Some ''GDP per capita in year 2011 prices'') (Some ''Entity'')
             (Some ''Code'') (Some ''GDP per capita in year 2011 prices''))],
          Uncaught (KeyError ''year''))"
    by simp
  from d1 c1 part1 d2 c2 p2 part2 env d3 c3 p3 part3 show ?thesis by simp
qed

end
